theory Spec2Isabelle
  imports Complex_Main
begin

section \<open>Numbers: Python integers and floats\<close>

text \<open>
  Python integers are unbounded and are modelled by \<^typ>\<open>int\<close>. A Python float is an
  IEEE-754 binary64 number; it is modelled by the real number it denotes, and every
  float operation rounds its exact result to 53 significant bits, ties to even
  (\<open>fl\<close>). The exponent range is taken as unbounded: subnormal numbers and the
  overflow of numbers beyond about 1.8e308 are outside the model.
\<close>

fun nbits :: "nat \<Rightarrow> nat" where
  "nbits n = (if n = 0 then 0 else Suc (nbits (n div 2)))"

declare nbits.simps [simp del]

definition rne :: "real \<Rightarrow> int" where
  "rne x = (let f = \<lfloor>x\<rfloor>; d = x - of_int f in
     if d < 1/2 then f else if 1/2 < d then f + 1 else if even f then f else f + 1)"

definition expo :: "real \<Rightarrow> int" where
  "expo x = (if 1 \<le> x then int (nbits (nat \<lfloor>x\<rfloor>)) - 1
             else - int (nbits (nat (\<lceil>1 / x\<rceil> - 1))))"

definition pow2 :: "int \<Rightarrow> real" where
  "pow2 e = (if 0 \<le> e then 2 ^ nat e else 1 / 2 ^ nat (- e))"

definition fl :: "real \<Rightarrow> real" where
  "fl x = (if x = 0 then 0 else
     let u = pow2 (expo \<bar>x\<bar> - 52) in of_int (rne (x / u)) * u)"

text \<open>\<open>int(x)\<close> on a float truncates toward zero; \<open>float(n)\<close> rounds the integer.\<close>

definition py_int :: "real \<Rightarrow> int" where
  "py_int x = (if 0 \<le> x then \<lfloor>x\<rfloor> else \<lceil>x\<rceil>)"

definition float_of_int :: "int \<Rightarrow> real" where
  "float_of_int n = fl (of_int n)"

definition fmul :: "real \<Rightarrow> real \<Rightarrow> real" where
  "fmul a b = fl (a * b)"

definition fadd :: "real \<Rightarrow> real \<Rightarrow> real" where
  "fadd a b = fl (a + b)"

definition fsub :: "real \<Rightarrow> real \<Rightarrow> real" where
  "fsub a b = fl (a - b)"

definition fdiv :: "real \<Rightarrow> real \<Rightarrow> real" where
  "fdiv a b = fl (a / b)"

text \<open>\<open>n * c\<close> for an integer \<open>n\<close> and a float \<open>c\<close>, and \<open>int(n * c)\<close>.\<close>

definition imul :: "int \<Rightarrow> real \<Rightarrow> real" where
  "imul n c = fmul (float_of_int n) c"

definition int_mul :: "int \<Rightarrow> real \<Rightarrow> int" where
  "int_mul n c = py_int (imul n c)"

text \<open>
  \<open>progress = (r - 1) / 9.0; eased = progress ** 0.9\<close> with \<open>r = max(1, min(10, round))\<close>:
  the power is a library function, and \<open>r\<close> takes ten values only, so the ten results
  are tabulated as the binary fractions CPython computes.
\<close>

definition clamp_round :: "int \<Rightarrow> int" where
  "clamp_round n = max 1 (min 10 n)"

definition eased :: "int \<Rightarrow> real" where
  "eased r =
    (if r \<le> 1 then 0
     else if r = 2 then 4986909684850081 / 2 ^ 55
     else if r = 3 then 4652951261779549 / 2 ^ 54
     else if r = 4 then 6702095880904889 / 2 ^ 54
     else if r = 5 then 4341357035253135 / 2 ^ 53
     else if r = 6 then 663368016362253 / 2 ^ 50
     else if r = 7 then 6253276569327203 / 2 ^ 53
     else if r = 8 then 7183891222949173 / 2 ^ 53
     else if r = 9 then 2025314670965799 / 2 ^ 51
     else 1)"

section \<open>Text\<close>

text \<open>
  A Python string is a sequence of code points. The regular-expression engine, the
  parser behind \<open>int(s)\<close> and \<open>str.lower\<close> belong to the Python library and depend
  on the Unicode tables; they are parameters of the model, collected in \<open>pylib\<close>:
  \<open>re_rupee\<close> is group 1 of the search for the rupee sign, optional white space and a
  run of digits and commas; \<open>re_digits\<close> is group 1 of the search for a run of five or
  more digits; \<open>int_of_text s\<close> is \<open>None\<close> where \<open>int(s)\<close> raises ValueError.
\<close>

type_synonym str = "nat list"

record pylib =
  str_lower :: "str \<Rightarrow> str"
  re_rupee :: "str \<Rightarrow> str option"
  re_digits :: "str \<Rightarrow> str option"
  int_of_text :: "str \<Rightarrow> int option"

definition U :: "string \<Rightarrow> str" where
  "U s = map of_char s"

definition rupee :: str where
  "rupee = [8377]"

fun digits_nat :: "nat \<Rightarrow> str" where
  "digits_nat n = (if n < 10 then [48 + n] else digits_nat (n div 10) @ [48 + n mod 10])"

declare digits_nat.simps [simp del]

definition str_int :: "int \<Rightarrow> str" where
  "str_int i = (if i < 0 then 45 # digits_nat (nat (- i)) else digits_nat (nat i))"

fun starts_with :: "str \<Rightarrow> str \<Rightarrow> bool" where
  "starts_with [] t = True"
| "starts_with (k # ks) [] = False"
| "starts_with (k # ks) (c # cs) = (k = c \<and> starts_with ks cs)"

fun contains :: "str \<Rightarrow> str \<Rightarrow> bool" where
  "contains kw [] = (kw = [])"
| "contains kw (c # cs) = (starts_with kw (c # cs) \<or> contains kw cs)"

text \<open>\<open>random.choice(xs)\<close>, with the index the generator draws.\<close>

definition choice :: "'a list \<Rightarrow> nat \<Rightarrow> 'a" where
  "choice xs i = xs ! (i mod length xs)"

section \<open>Data structures\<close>

record 'a Product =
  name :: str
  category :: str
  quantity :: int
  quality_grade :: str
  origin :: str
  base_market_price :: int
  attributes :: 'a

record 'a NegotiationContext =
  product :: "'a Product"
  your_budget :: int
  current_round :: int
  seller_offers :: "int list"
  your_offers :: "int list"
  messages :: "(str \<times> str) list"

datatype DealStatus = ONGOING | ACCEPTED | REJECTED | TIMEOUT

datatype actor = Buyer | Seller

datatype py_error = IndexError

type_synonym decision = "DealStatus \<times> int \<times> str"

section \<open>The buyer agent\<close>

text \<open>
  \<open>self._state\<close> of \<open>YourBuyerAgent\<close>. The attribute is absent on a new instance
  (\<open>None\<close> below) and is created by \<open>_init_state\<close> only when absent.
\<close>

record buyer_state =
  seller_history :: "int list"
  min_seller_seen :: "int option"
  seller_min_est :: "int option"
  concessions_buyer :: "int list"
  concessions_seller :: "int list"
  last_seller_tone :: string

definition MIN_STEP :: int where "MIN_STEP = 1000"
definition AGG_OPEN_BUDGET_RATIO :: real where "AGG_OPEN_BUDGET_RATIO = fl (78 / 100)"
definition MARKET_OPEN_RATIO :: real where "MARKET_OPEN_RATIO = fl (72 / 100)"
definition WALKAWAY_MARKET_RATIO :: real where "WALKAWAY_MARKET_RATIO = fl (96 / 100)"
definition FAST_CONCESSION_AFTER :: int where "FAST_CONCESSION_AFTER = 5"
definition FAST_CONCESSION_MULT :: real where "FAST_CONCESSION_MULT = 3 / 2"
definition EST_DECAY :: real where "EST_DECAY = fl (6 / 10)"
definition MIN_SELLER_MARGIN :: real where "MIN_SELLER_MARGIN = fl (110 / 100)"
definition SAVINGS_THRESHOLD :: real where "SAVINGS_THRESHOLD = fl (10 / 100)"

definition fresh_buyer_state :: buyer_state where
  "fresh_buyer_state =
     \<lparr>seller_history = [], min_seller_seen = None, seller_min_est = None,
      concessions_buyer = [], concessions_seller = [], last_seller_tone = ''neutral''\<rparr>"

definition init_state :: "buyer_state option \<Rightarrow> buyer_state" where
  "init_state agent = (case agent of None \<Rightarrow> fresh_buyer_state | Some st \<Rightarrow> st)"

definition format_professional :: "nat \<times> nat \<Rightarrow> str \<Rightarrow> str" where
  "format_professional rnd content =
    (let lead = choice [U ''For clarity:'', U ''Let's be direct:'', U ''To be efficient:'',
                        U ''Straightforwardly:''] (fst rnd);
         tail = choice [U ''Please confirm.'', U ''I expect a prompt response.'',
                        U ''Proceed accordingly.'', U ''This suits my thresholds.''] (snd rnd)
     in lead @ U '' '' @ content @ U '' '' @ tail)"

definition tone_score :: "str \<Rightarrow> string list \<Rightarrow> string list \<Rightarrow> string list \<Rightarrow> int" where
  "tone_score t emotional logical polite =
    (let score = 0;
         score = foldl (\<lambda>s kw. if contains (U kw) t then s - 2 else s) score emotional;
         score = foldl (\<lambda>s kw. if contains (U kw) t then s + 1 else s) score logical;
         score = foldl (\<lambda>s kw. if contains (U kw) t then s + 1 else s) score polite
     in score)"

definition analyze_seller_tone :: "pylib \<Rightarrow> str \<Rightarrow> string" where
  "analyze_seller_tone L txt =
    (if txt = [] then ''neutral''
     else let t = str_lower L txt;
              score = tone_score t
                [''angry'', ''insult'', ''unfair'', ''frustrat'', ''outrage'', ''hate'', ''never'',
                 ''demand'', ''disrespect'', ''!'', ''how dare'']
                [''market'', ''price'', ''cost'', ''margin'', ''percent'', ''%'', ''data'',
                 ''analysis'', ''based on'']
                [''please'', ''kindly'', ''thank'', ''appreciate'']
          in if score \<le> - 1 then ''emotional''
             else if 1 \<le> score then ''logical''
             else ''neutral'')"

definition personality_adaptation :: "pylib \<Rightarrow> str \<Rightarrow> buyer_state \<Rightarrow> string \<times> buyer_state" where
  "personality_adaptation L seller_message st =
    (let tone = analyze_seller_tone L seller_message;
         st = st\<lparr>last_seller_tone := tone\<rparr>
     in if tone = ''emotional'' then (''logical'', st)
        else if tone = ''logical'' then (''appeal'', st)
        else (''logical'', st))"

definition record_concession :: "actor \<Rightarrow> int \<Rightarrow> buyer_state \<Rightarrow> buyer_state" where
  "record_concession who amount st =
    (case who of
       Buyer \<Rightarrow> st\<lparr>concessions_buyer := concessions_buyer st @ [amount]\<rparr>
     | Seller \<Rightarrow> st\<lparr>concessions_seller := concessions_seller st @ [amount]\<rparr>)"

definition seller_made_concession :: "int \<Rightarrow> buyer_state \<Rightarrow> int option" where
  "seller_made_concession new_seller_price st =
    (let hist = seller_history st
     in if hist = [] then None
        else let lst = last hist
             in if new_seller_price < lst then Some (lst - new_seller_price) else None)"

definition demands :: "str list" where
  "demands = [U ''free delivery'', U ''extended warranty (6 months)'', U ''priority dispatch'',
              U ''a small bulk discount on the next order'', U ''payment terms (30 days)'']"

text \<open>
  Subscription \<open>xs[i]\<close>: positions \<open>0 .. len - 1\<close> from the front, \<open>-len .. -1\<close> from the
  back, IndexError elsewhere.
\<close>

definition py_index :: "'a list \<Rightarrow> int \<Rightarrow> py_error + 'a" where
  "py_index xs i =
    (if 0 \<le> i \<and> i < int (length xs) then Inr (xs ! nat i)
     else if i < 0 \<and> - int (length xs) \<le> i then Inr (xs ! nat (int (length xs) + i))
     else Inl IndexError)"

definition reciprocity_index :: "int \<Rightarrow> int" where
  "reciprocity_index buyer_concession_count =
    (if 0 < buyer_concession_count
     then min (int (length demands) - 1) (buyer_concession_count - 1) else 0)"

definition format_reciprocity_request :: "int \<Rightarrow> py_error + str" where
  "format_reciprocity_request buyer_concession_count =
     py_index demands (reciprocity_index buyer_concession_count)"

definition extract_price :: "pylib \<Rightarrow> str \<Rightarrow> int option" where
  "extract_price L txt =
    (if txt = [] then None
     else case re_rupee L txt of
            Some g \<Rightarrow> int_of_text L (filter (\<lambda>c. c \<noteq> 44) g)
          | None \<Rightarrow>
             (case re_digits L txt of
                Some g \<Rightarrow> int_of_text L g
              | None \<Rightarrow> None))"

definition opening_offer_number :: "'a NegotiationContext \<Rightarrow> int" where
  "opening_offer_number ctx =
    (let market = base_market_price (product ctx);
         budget = your_budget ctx;
         opening = min (int_mul budget AGG_OPEN_BUDGET_RATIO) (int_mul market MARKET_OPEN_RATIO)
     in max MIN_STEP (min opening budget))"

definition walkaway_cap :: "'a NegotiationContext \<Rightarrow> int" where
  "walkaway_cap ctx =
    (let market = base_market_price (product ctx)
     in min (int_mul market WALKAWAY_MARKET_RATIO) (your_budget ctx))"

definition update_seller_estimates :: "int \<Rightarrow> buyer_state \<Rightarrow> buyer_state" where
  "update_seller_estimates seller_price st =
    (let st = st\<lparr>seller_history := seller_history st @ [seller_price]\<rparr>;
         st = (case min_seller_seen st of
                 None \<Rightarrow> st\<lparr>min_seller_seen := Some seller_price\<rparr>
               | Some m \<Rightarrow> st\<lparr>min_seller_seen := Some (min m seller_price)\<rparr>);
         rough_floor = int_mul seller_price (fl (85 / 100))
     in case seller_min_est st of
          None \<Rightarrow> st\<lparr>seller_min_est := Some rough_floor\<rparr>
        | Some e \<Rightarrow>
            st\<lparr>seller_min_est :=
                 Some (py_int (fadd (fmul EST_DECAY (float_of_int e))
                                    (fmul (fsub 1 EST_DECAY) (float_of_int rough_floor))))\<rparr>)"

definition closing_target_from_estimate :: "buyer_state \<Rightarrow> int option" where
  "closing_target_from_estimate st =
    (case min_seller_seen st of
       None \<Rightarrow> None
     | Some m \<Rightarrow>
         if m = 0 then None
         else let est_min_floor = int_mul m (fl (98 / 100));
                  target = int_mul est_min_floor MIN_SELLER_MARGIN
              in Some (max MIN_STEP target))"

definition generate_opening_offer ::
  "nat \<times> nat \<Rightarrow> buyer_state option \<Rightarrow> 'a NegotiationContext \<Rightarrow> (int \<times> str) \<times> buyer_state" where
  "generate_opening_offer rnd agent ctx =
    (let st = init_state agent;
         offer = opening_offer_number ctx;
         content = U ''My opening is '' @ rupee @ str_int offer @ U '' for ''
                   @ str_int (quantity (product ctx)) @ U '' units of ''
                   @ quality_grade (product ctx) @ U ''-grade '' @ name (product ctx) @ U ''.'';
         st = record_concession Buyer offer st
     in ((offer, format_professional rnd content), st))"

text \<open>Lines 322 to 328 of \<open>respond_to_seller_offer\<close>: the observed price updates the estimates.\<close>

definition observe :: "pylib \<Rightarrow> int option \<Rightarrow> str \<Rightarrow> buyer_state \<Rightarrow> buyer_state" where
  "observe L seller_price seller_message st =
    (let observed = (case seller_price of Some p \<Rightarrow> Some p
                     | None \<Rightarrow> extract_price L seller_message)
     in case observed of
          None \<Rightarrow> st
        | Some ob \<Rightarrow>
            if ob = 0 then st
            else let seller_conc = (if seller_history st \<noteq> []
                                    then seller_made_concession ob st else None);
                     st = update_seller_estimates ob st
                 in case seller_conc of
                      Some c \<Rightarrow> if c \<noteq> 0 \<and> 0 < c then record_concession Seller c st else st
                    | None \<Rightarrow> st)"

text \<open>Lines 384 to 397: the gap-driven step.\<close>

definition gap_step :: "int \<Rightarrow> int \<Rightarrow> int \<Rightarrow> int \<Rightarrow> int" where
  "gap_step market last_my seller_price r =
    (let gap = max 0 (seller_price - last_my);
         base_far = py_int (max (of_int MIN_STEP) (imul market (fl (6 / 100))));
         base_close = py_int (max (of_int MIN_STEP) (imul market (fl (2 / 100))));
         pct_gap = fdiv (of_int gap) (of_int (max 1 last_my));
         step = (if fl (18 / 100) < pct_gap then base_far
                 else if fl (7 / 100) < pct_gap then py_int (fdiv (of_int (base_far + base_close)) 2)
                 else base_close)
     in if FAST_CONCESSION_AFTER < r then int_mul step FAST_CONCESSION_MULT else step)"

definition reciprocity_text :: "buyer_state \<Rightarrow> py_error + str" where
  "reciprocity_text st =
    (let buyer_conc_count = int (length (concessions_buyer st));
         seller_conc_count = int (length (concessions_seller st))
     in if seller_conc_count < buyer_conc_count
        then (case format_reciprocity_request buyer_conc_count of
                Inl e \<Rightarrow> Inl e
              | Inr demand \<Rightarrow> Inr (U '' In return for this move I need: '' @ demand @ U ''.''))
        else Inr [])"

text \<open>Lines 417 to 439: the message of a counter-offer.\<close>

definition counter_message :: "string \<Rightarrow> int \<Rightarrow> buyer_state \<Rightarrow> py_error + str" where
  "counter_message tone_adapt proposed st =
    (case reciprocity_text st of
       Inl e \<Rightarrow> Inl e
     | Inr rtext \<Rightarrow>
        if tone_adapt \<noteq> [] then
          if tone_adapt = ''logical'' then
            Inr (U ''My counter is '' @ rupee @ str_int proposed
                 @ U ''. This reflects market structure, my ceiling, and time-to-agreement.''
                 @ rtext)
          else
            (case format_reciprocity_request (int (length (concessions_buyer st))) of
               Inl e \<Rightarrow> Inl e
             | Inr demand \<Rightarrow>
                 Inr (U ''My counter is '' @ rupee @ str_int proposed
                      @ U ''. I prefer to work with you '' @ [8212] @ U '' if you can include ''
                      @ demand @ U '', we can close today.''
                      @ U '' Let's make this a lasting cooperation.''))
        else Inr (U ''My counter is '' @ rupee @ str_int proposed @ U ''.'' @ rtext))"

text \<open>Lines 383 to 439: the counter-offer to a price that was not accepted.\<close>

definition bargain ::
  "nat \<times> nat \<Rightarrow> string \<Rightarrow> buyer_state \<Rightarrow> 'a NegotiationContext \<Rightarrow> int option \<Rightarrow> int \<Rightarrow>
     int \<Rightarrow> int \<Rightarrow> py_error + (decision \<times> buyer_state)" where
  "bargain rnd tone_adapt st ctx closing_target last_my r seller_price =
    (let market = base_market_price (product ctx);
         budget = your_budget ctx;
         opening = opening_offer_number ctx;
         walkaway = walkaway_cap ctx;
         interview_threshold = int_mul budget (fsub 1 SAVINGS_THRESHOLD);
         gap = max 0 (seller_price - last_my);
         step = gap_step market last_my seller_price r;
         target_anchor =
           (case closing_target of
              None \<Rightarrow> None
            | Some c \<Rightarrow> if c = 0 then None
                        else Some (min (max interview_threshold c) (min walkaway budget)));
         by_gap = last_my + max MIN_STEP (py_int (max (of_int step) (imul gap (fl (45 / 100)))));
         proposed =
           (case target_anchor of
              None \<Rightarrow> by_gap
            | Some ta \<Rightarrow>
                if ta = 0 then by_gap
                else let toward = max step (py_int (fmul (float_of_int (ta - last_my)) (1 / 2)))
                     in last_my + max MIN_STEP toward);
         proposed = max proposed (max opening last_my);
         proposed = min proposed (min budget walkaway);
         st = (if last_my < proposed then record_concession Buyer (proposed - last_my) st else st)
     in case counter_message tone_adapt proposed st of
          Inl e \<Rightarrow> Inl e
        | Inr content \<Rightarrow> Inr ((ONGOING, proposed, format_professional rnd content), st))"

text \<open>Lines 354 to 366: the late-round finalization.\<close>

definition finalize ::
  "nat \<times> nat \<Rightarrow> buyer_state \<Rightarrow> 'a NegotiationContext \<Rightarrow> int option \<Rightarrow> int option \<Rightarrow>
     py_error + (decision \<times> buyer_state)" where
  "finalize rnd st ctx closing_target seller_price =
    (let budget = your_budget ctx;
         walkaway = walkaway_cap ctx;
         interview_threshold = int_mul budget (fsub 1 SAVINGS_THRESHOLD);
         acceptable = (case seller_price of None \<Rightarrow> None
                   | Some p \<Rightarrow> if p \<le> budget then Some p else None)
     in case acceptable of
          Some p \<Rightarrow>
            Inr ((ACCEPTED, p,
                  format_professional rnd (U ''Finalizing at '' @ rupee @ str_int p @ U ''.'')), st)
        | None \<Rightarrow>
            let last_shot = min budget walkaway;
                last_shot = (case closing_target of
                               None \<Rightarrow> last_shot
                             | Some c \<Rightarrow> if c = 0 then last_shot
                                         else min last_shot (max interview_threshold c));
                buyer_conc_count = int (length (concessions_buyer st))
            in case format_reciprocity_request buyer_conc_count of
                 Inl e \<Rightarrow> Inl e
               | Inr demand \<Rightarrow>
                   Inr ((ONGOING, last_shot,
                         format_professional rnd
                           (U ''Final offer '' @ rupee @ str_int last_shot
                            @ U ''. In return I require: '' @ demand
                            @ U ''. Immediate confirmation concludes the deal.'')), st))"

definition dynamic_target :: "'a NegotiationContext \<Rightarrow> int" where
  "dynamic_target ctx =
    (let opening = opening_offer_number ctx;
         walkaway = walkaway_cap ctx;
         r = clamp_round (current_round ctx)
     in py_int (fadd (float_of_int opening) (fmul (float_of_int (walkaway - opening)) (eased r))))"

definition respond_to_seller_offer ::
  "pylib \<Rightarrow> nat \<times> nat \<Rightarrow> buyer_state option \<Rightarrow> 'a NegotiationContext \<Rightarrow> int option \<Rightarrow> str \<Rightarrow>
     py_error + (decision \<times> buyer_state)" where
  "respond_to_seller_offer L rnd agent ctx seller_price seller_message =
    (let st = init_state agent;
         st = observe L seller_price seller_message st;
         (tone_adapt, st) = personality_adaptation L seller_message st;
         market = base_market_price (product ctx);
         budget = your_budget ctx;
         opening = opening_offer_number ctx;
         walkaway = walkaway_cap ctx;
         last_my = (if your_offers ctx \<noteq> [] then last (your_offers ctx) else opening);
         interview_threshold = int_mul budget (fsub 1 SAVINGS_THRESHOLD);
         market_floor_proxy = int_mul market (fl (82 / 100));
         immediate =
           (case seller_price of
              None \<Rightarrow> None
            | Some p \<Rightarrow>
                if p \<le> min interview_threshold walkaway
                then Some (U ''I accept '' @ rupee @ str_int p
                           @ U ''. It meets my efficiency threshold.'')
                else if p \<le> min walkaway market_floor_proxy \<and> p \<le> budget
                then Some (U ''I accept '' @ rupee @ str_int p
                           @ U ''. This aligns with my market-floor analysis.'')
                else None)
     in case (immediate, seller_price) of
          (Some msg, Some p) \<Rightarrow> Inr ((ACCEPTED, p, format_professional rnd msg), st)
        | _ \<Rightarrow>
          let closing_target = map_option (\<lambda>c. min c (min walkaway budget))
                                 (closing_target_from_estimate st)
          in if 9 \<le> current_round ctx then finalize rnd st ctx closing_target seller_price
             else
               let r = clamp_round (current_round ctx)
               in case seller_price of
                    None \<Rightarrow>
                      let proposed = min budget (max opening (int_mul last_my (fl (108 / 100))))
                      in Inr ((ONGOING, proposed,
                               format_professional rnd
                                 (U ''My counter is '' @ rupee @ str_int proposed
                                  @ U ''. Provide a numeric offer to proceed.'')), st)
                  | Some p \<Rightarrow>
                      if p \<le> min (dynamic_target ctx) budget
                      then Inr ((ACCEPTED, p,
                                 format_professional rnd
                                   (U ''Agreed at '' @ rupee @ str_int p
                                    @ U ''. Efficient resolution.'')), st)
                      else bargain rnd tone_adapt st ctx closing_target last_my r p)"

section \<open>The seller agent\<close>

text \<open>
  \<open>YourSellerAgent\<close> has the same method names; the seller's definitions carry the
  suffix \<open>_S\<close>. Its price argument is tested for truth (\<open>if buyer_price:\<close>), so it may be
  absent.
\<close>

record seller_state =
  buyer_history :: "int list"
  max_buyer_seen :: "int option"
  buyer_max_est :: "int option"
  concessions_buyer_S :: "int list"
  concessions_seller_S :: "int list"
  last_buyer_tone :: string

definition MIN_STEP_S :: int where "MIN_STEP_S = 1000"
definition AGG_OPEN_RATIO :: real where "AGG_OPEN_RATIO = fl (125 / 100)"
definition MARKET_OPEN_RATIO_S :: real where "MARKET_OPEN_RATIO_S = fl (115 / 100)"
definition WALKAWAY_RATIO :: real where "WALKAWAY_RATIO = fl (90 / 100)"
definition FAST_CONCESSION_AFTER_S :: int where "FAST_CONCESSION_AFTER_S = 5"
definition FAST_CONCESSION_MULT_S :: real where "FAST_CONCESSION_MULT_S = 3 / 2"
definition EST_DECAY_S :: real where "EST_DECAY_S = fl (6 / 10)"

definition fresh_seller_state :: seller_state where
  "fresh_seller_state =
     \<lparr>buyer_history = [], max_buyer_seen = None, buyer_max_est = None,
      concessions_buyer_S = [], concessions_seller_S = [], last_buyer_tone = ''neutral''\<rparr>"

definition init_state_S :: "seller_state option \<Rightarrow> seller_state" where
  "init_state_S agent = (case agent of None \<Rightarrow> fresh_seller_state | Some st \<Rightarrow> st)"

definition format_professional_S :: "nat \<times> nat \<Rightarrow> str \<Rightarrow> str" where
  "format_professional_S rnd content =
    (let lead = choice [U ''Professionally:'', U ''Let's be clear:'', U ''For efficiency:'',
                        U ''Directly:''] (fst rnd);
         tail = choice [U ''Confirm at your earliest.'', U ''I expect reciprocity.'',
                        U ''Proceed accordingly.'', U ''This is sustainable.''] (snd rnd)
     in lead @ U '' '' @ content @ U '' '' @ tail)"

definition analyze_buyer_tone :: "pylib \<Rightarrow> str \<Rightarrow> string" where
  "analyze_buyer_tone L txt =
    (if txt = [] then ''neutral''
     else let t = str_lower L txt;
              score = tone_score t
                [''angry'', ''unfair'', ''frustrat'', ''demand'', ''unacceptable'', ''!'', ''urgent'']
                [''market'', ''budget'', ''price'', ''analysis'', ''cost'', ''%'', ''data'']
                [''please'', ''thank'', ''appreciate'']
          in if score \<le> - 1 then ''emotional''
             else if 1 \<le> score then ''logical''
             else ''neutral'')"

definition personality_adaptation_S ::
  "pylib \<Rightarrow> str \<Rightarrow> seller_state \<Rightarrow> string \<times> seller_state" where
  "personality_adaptation_S L buyer_message st =
    (let tone = analyze_buyer_tone L buyer_message;
         st = st\<lparr>last_buyer_tone := tone\<rparr>
     in if tone = ''emotional'' then (''logical'', st)
        else if tone = ''logical'' then (''appeal'', st)
        else (''logical'', st))"

definition record_concession_S :: "actor \<Rightarrow> int \<Rightarrow> seller_state \<Rightarrow> seller_state" where
  "record_concession_S who amount st =
    (case who of
       Buyer \<Rightarrow> st\<lparr>concessions_buyer_S := concessions_buyer_S st @ [amount]\<rparr>
     | Seller \<Rightarrow> st\<lparr>concessions_seller_S := concessions_seller_S st @ [amount]\<rparr>)"

definition buyer_made_concession :: "int \<Rightarrow> seller_state \<Rightarrow> int option" where
  "buyer_made_concession new_buyer_price st =
    (let hist = buyer_history st
     in if hist = [] then None
        else let lst = last hist
             in if lst < new_buyer_price then Some (new_buyer_price - lst) else None)"

definition demands_S :: "str list" where
  "demands_S = [U ''commitment to higher volume'', U ''faster payment terms'',
                U ''exclusive supplier status'', U ''priority contract renewal'',
                U ''multi-order agreement'']"

definition reciprocity_index_S :: "int \<Rightarrow> int" where
  "reciprocity_index_S seller_concession_count =
    (if 0 < seller_concession_count
     then min (int (length demands_S) - 1) (seller_concession_count - 1) else 0)"

definition format_reciprocity_request_S :: "int \<Rightarrow> py_error + str" where
  "format_reciprocity_request_S seller_concession_count =
     py_index demands_S (reciprocity_index_S seller_concession_count)"

definition opening_offer_number_S :: "'a NegotiationContext \<Rightarrow> int" where
  "opening_offer_number_S ctx =
    (let market = base_market_price (product ctx);
         opening = int_mul market AGG_OPEN_RATIO
     in max opening (int_mul market MARKET_OPEN_RATIO_S))"

definition walkaway_floor :: "'a NegotiationContext \<Rightarrow> int" where
  "walkaway_floor ctx = int_mul (base_market_price (product ctx)) WALKAWAY_RATIO"

definition update_buyer_estimates :: "int \<Rightarrow> seller_state \<Rightarrow> seller_state" where
  "update_buyer_estimates buyer_price st =
    (let st = st\<lparr>buyer_history := buyer_history st @ [buyer_price]\<rparr>;
         st = (case max_buyer_seen st of
                 None \<Rightarrow> st\<lparr>max_buyer_seen := Some buyer_price\<rparr>
               | Some m \<Rightarrow> st\<lparr>max_buyer_seen := Some (max m buyer_price)\<rparr>);
         rough_cap = int_mul buyer_price (fl (110 / 100))
     in case buyer_max_est st of
          None \<Rightarrow> st\<lparr>buyer_max_est := Some rough_cap\<rparr>
        | Some e \<Rightarrow>
            st\<lparr>buyer_max_est :=
                 Some (py_int (fadd (fmul EST_DECAY_S (float_of_int e))
                                    (fmul (fsub 1 EST_DECAY_S) (float_of_int rough_cap))))\<rparr>)"

definition closing_target_from_estimate_S :: "seller_state \<Rightarrow> int option" where
  "closing_target_from_estimate_S st =
    (case max_buyer_seen st of
       None \<Rightarrow> None
     | Some m \<Rightarrow> if m = 0 then None else Some (int_mul m (fl (102 / 100))))"

definition generate_opening_offer_S ::
  "nat \<times> nat \<Rightarrow> seller_state option \<Rightarrow> 'a NegotiationContext \<Rightarrow> (int \<times> str) \<times> seller_state" where
  "generate_opening_offer_S rnd agent ctx =
    (let st = init_state_S agent;
         offer = opening_offer_number_S ctx;
         content = U ''My opening is '' @ rupee @ str_int offer @ U '' for ''
                   @ str_int (quantity (product ctx)) @ U '' units of ''
                   @ quality_grade (product ctx) @ U ''-grade '' @ name (product ctx) @ U ''.'';
         st = record_concession_S Seller 0 st
     in ((offer, format_professional_S rnd content), st))"

text \<open>Lines 629 to 633 of the seller's \<open>respond_to_seller_offer\<close>.\<close>

definition observe_S :: "int option \<Rightarrow> seller_state \<Rightarrow> seller_state" where
  "observe_S buyer_price st =
    (case buyer_price of
       None \<Rightarrow> st
     | Some bp \<Rightarrow>
         if bp = 0 then st
         else let buyer_conc = (if buyer_history st \<noteq> []
                                then buyer_made_concession bp st else None);
                  st = update_buyer_estimates bp st
              in case buyer_conc of
                   Some c \<Rightarrow> if c \<noteq> 0 \<and> 0 < c then record_concession_S Buyer c st else st
                 | None \<Rightarrow> st)"

text \<open>\<open>buyer_price and buyer_price >= bound\<close>.\<close>

definition price_reaches :: "int option \<Rightarrow> int \<Rightarrow> bool" where
  "price_reaches buyer_price bound =
    (case buyer_price of None \<Rightarrow> False | Some bp \<Rightarrow> bp \<noteq> 0 \<and> bound \<le> bp)"

definition price_of :: "int option \<Rightarrow> int" where
  "price_of buyer_price = (case buyer_price of None \<Rightarrow> 0 | Some bp \<Rightarrow> bp)"

text \<open>Line 669: \<open>gap = (last_my - buyer_price) if buyer_price else 0\<close>.\<close>

definition gap_S :: "int \<Rightarrow> int option \<Rightarrow> int" where
  "gap_S last_my buyer_price =
    (case buyer_price of None \<Rightarrow> 0 | Some bp \<Rightarrow> if bp = 0 then 0 else last_my - bp)"

text \<open>Lines 670 to 673: the seller's step.\<close>

definition step_S :: "int \<Rightarrow> int \<Rightarrow> int" where
  "step_S market r =
    (let step = py_int (max (of_int MIN_STEP_S) (imul market (fl (5 / 100))))
     in if FAST_CONCESSION_AFTER_S < r then int_mul step FAST_CONCESSION_MULT_S else step)"

definition dynamic_target_S :: "'a NegotiationContext \<Rightarrow> int" where
  "dynamic_target_S ctx =
    (let opening = opening_offer_number_S ctx;
         floor = walkaway_floor ctx;
         r = clamp_round (current_round ctx)
     in py_int (fsub (float_of_int opening) (fmul (float_of_int (opening - floor)) (eased r))))"

definition counter_message_S :: "string \<Rightarrow> int \<Rightarrow> seller_state \<Rightarrow> py_error + str" where
  "counter_message_S tone_adapt proposed st =
    (let buyer_conc_count = int (length (concessions_buyer_S st));
         seller_conc_count = int (length (concessions_seller_S st));
         reciprocity =
           (if buyer_conc_count < seller_conc_count
            then (case format_reciprocity_request_S seller_conc_count of
                    Inl e \<Rightarrow> Inl e
                  | Inr demand \<Rightarrow> Inr (U '' In return I require: '' @ demand @ U ''.''))
            else Inr [])
     in case reciprocity of
          Inl e \<Rightarrow> Inl e
        | Inr rtext \<Rightarrow>
            if tone_adapt = ''logical'' then
              Inr (U ''My counter is '' @ rupee @ str_int proposed
                   @ U ''. This reflects market floor and sustainable pricing.'' @ rtext)
            else
              (case format_reciprocity_request_S seller_conc_count of
                 Inl e \<Rightarrow> Inl e
               | Inr demand \<Rightarrow>
                   Inr (U ''My counter is '' @ rupee @ str_int proposed
                        @ U ''. I'' @ [8217] @ U ''d prefer to continue this partnership ''
                        @ [8212] @ U '' include '' @ demand @ U '', and we close today.'')))"

definition respond_to_seller_offer_S ::
  "pylib \<Rightarrow> nat \<times> nat \<Rightarrow> seller_state option \<Rightarrow> 'a NegotiationContext \<Rightarrow> int option \<Rightarrow> str \<Rightarrow>
     py_error + (decision \<times> seller_state)" where
  "respond_to_seller_offer_S L rnd agent ctx buyer_price buyer_message =
    (let st = init_state_S agent;
         st = observe_S buyer_price st;
         (tone_adapt, st) = personality_adaptation_S L buyer_message st;
         market = base_market_price (product ctx);
         opening = opening_offer_number_S ctx;
         floor = walkaway_floor ctx;
         last_my = (if your_offers ctx \<noteq> [] then last (your_offers ctx) else opening);
         closing_target = map_option (\<lambda>c. max c floor) (closing_target_from_estimate_S st)
     in if 9 \<le> current_round ctx then
          if price_reaches buyer_price floor then
            Inr ((ACCEPTED, price_of buyer_price,
                  format_professional_S rnd
                    (U ''Finalizing at '' @ rupee @ str_int (price_of buyer_price) @ U ''.'')), st)
          else
            let last_shot = max floor market;
                last_shot = (case closing_target of
                               None \<Rightarrow> last_shot
                             | Some c \<Rightarrow> if c = 0 then last_shot else max last_shot c)
            in case format_reciprocity_request_S (int (length (concessions_seller_S st))) of
                 Inl e \<Rightarrow> Inl e
               | Inr demand \<Rightarrow>
                   Inr ((ONGOING, last_shot,
                         format_professional_S rnd
                           (U ''Final offer '' @ rupee @ str_int last_shot
                            @ U ''. In return I require: '' @ demand
                            @ U ''. Immediate confirmation secures the deal.'')), st)
        else
          let r = clamp_round (current_round ctx)
          in if price_reaches buyer_price (dynamic_target_S ctx) then
               Inr ((ACCEPTED, price_of buyer_price,
                     format_professional_S rnd
                       (U ''Agreed at '' @ rupee @ str_int (price_of buyer_price)
                        @ U ''. Efficient resolution.'')), st)
             else
               let gap = gap_S last_my buyer_price;
                   step = step_S market r;
                   proposed = max (last_my - step) floor;
                   st = (if proposed < last_my
                         then record_concession_S Seller (last_my - proposed) st else st)
               in case counter_message_S tone_adapt proposed st of
                    Inl e \<Rightarrow> Inl e
                  | Inr content \<Rightarrow>
                      Inr ((ONGOING, proposed, format_professional_S rnd content), st))"

section \<open>Concrete inputs\<close>

definition mango :: "unit Product" where
  "mango = \<lparr>name = U ''Alphonso Mangoes'', category = U ''Mangoes'', quantity = 100,
            quality_grade = U ''A'', origin = U ''Ratnagiri'', base_market_price = 180000,
            attributes = ()\<rparr>"

definition small_budget_ctx :: "unit NegotiationContext" where
  "small_budget_ctx = \<lparr>product = mango, your_budget = 500, current_round = 1,
     seller_offers = [270000], your_offers = [], messages = []\<rparr>"

definition conceded_twice :: buyer_state where
  "conceded_twice = fresh_buyer_state\<lparr>concessions_buyer := [129600, 21600]\<rparr>"

text \<open>What a caller observes of a response apart from the message text.\<close>

definition outcome :: "py_error + (decision \<times> 's) \<Rightarrow> py_error + (DealStatus \<times> int \<times> 's)" where
  "outcome r = (case r of Inl e \<Rightarrow> Inl e
                | Inr ((status, price, msg), st) \<Rightarrow> Inr (status, price, st))"

text \<open>
  A library instance for concrete inputs: ASCII letters, digits and white space only.
  The text arguments of the concrete inputs below stay within that range.
\<close>

definition is_digit :: "nat \<Rightarrow> bool" where
  "is_digit c = (48 \<le> c \<and> c \<le> 57)"

definition is_space :: "nat \<Rightarrow> bool" where
  "is_space c = (c = 32 \<or> (9 \<le> c \<and> c \<le> 13))"

fun rupee_search :: "str \<Rightarrow> str option" where
  "rupee_search [] = None"
| "rupee_search (c # cs) =
    (if c = 8377 \<and> takeWhile (\<lambda>d. is_digit d \<or> d = 44) (dropWhile is_space cs) \<noteq> []
     then Some (takeWhile (\<lambda>d. is_digit d \<or> d = 44) (dropWhile is_space cs))
     else rupee_search cs)"

fun digits_search :: "str \<Rightarrow> str option" where
  "digits_search [] = None"
| "digits_search (c # cs) =
    (if 5 \<le> length (takeWhile is_digit (c # cs)) then Some (takeWhile is_digit (c # cs))
     else digits_search cs)"

definition parse_int :: "str \<Rightarrow> int option" where
  "parse_int s = (if s = [] \<or> \<not> list_all is_digit s then None
                  else Some (foldl (\<lambda>a d. 10 * a + int (d - 48)) 0 s))"

definition ascii_lib :: pylib where
  "ascii_lib = \<lparr>str_lower = map (\<lambda>c. if 65 \<le> c \<and> c \<le> 90 then c + 32 else c),
                re_rupee = rupee_search, re_digits = digits_search, int_of_text = parse_int\<rparr>"

definition easy_ctx :: "unit NegotiationContext" where
  "easy_ctx = \<lparr>product = mango, your_budget = 216000, current_round = 2,
     seller_offers = [270000, 149040], your_offers = [129600], messages = []\<rparr>"






text \<open>The status and the price of a response, when there is one.\<close>

definition status_price :: "py_error + (decision \<times> 's) \<Rightarrow> (DealStatus \<times> int) option" where
  "status_price r = (case r of Inl e \<Rightarrow> None
                     | Inr ((status, price, msg), st) \<Rightarrow> Some (status, price))"


definition hard_late_ctx :: "unit NegotiationContext" where
  "hard_late_ctx = \<lparr>product = mango, your_budget = 162000, current_round = 9,
     seller_offers = [270000], your_offers = [], messages = []\<rparr>"

text \<open>
  \<open>self._state\<close> as a call leaves it on the agent instance, for the next call on the same
  instance.
\<close>

definition agent_after :: "py_error + (decision \<times> 's) \<Rightarrow> 's option" where
  "agent_after r = (case r of Inl e \<Rightarrow> None | Inr (d, st) \<Rightarrow> Some st)"

text \<open>
  A session as \<open>run_negotiation_test\<close> drives the agent (lines 803 to 833): the opening
  offer in round 1, then one response per round to the counterpart's reply, each offer
  appended to the context's \<open>your_offers\<close>, until the agent accepts. The counterpart's
  replies are given as a list. \<open>quiet\<close> holds of an agent that has seen no buyer price.
\<close>

fun seller_rounds ::
  "pylib \<Rightarrow> nat \<times> nat \<Rightarrow> seller_state option \<Rightarrow> 'a NegotiationContext \<Rightarrow>
     (int option \<times> str) list \<Rightarrow> 'a NegotiationContext" where
  "seller_rounds L rnd agent ctx [] = ctx"
| "seller_rounds L rnd agent ctx ((buyer_price, buyer_msg) # rest) =
    (let ctx = ctx\<lparr>current_round := current_round ctx + 1\<rparr>;
         r = respond_to_seller_offer_S L rnd agent ctx buyer_price buyer_msg
     in case status_price r of
          None \<Rightarrow> ctx
        | Some (status, offer) \<Rightarrow>
            if status = ACCEPTED then ctx\<lparr>your_offers := your_offers ctx @ [offer]\<rparr>
            else seller_rounds L rnd (agent_after r)
                   (ctx\<lparr>your_offers := your_offers ctx @ [offer]\<rparr>) rest)"

declare seller_rounds.simps [simp del]

definition seller_session ::
  "pylib \<Rightarrow> nat \<times> nat \<Rightarrow> 'a NegotiationContext \<Rightarrow> (int option \<times> str) list \<Rightarrow>
     'a NegotiationContext" where
  "seller_session L rnd ctx replies =
    (let ctx = ctx\<lparr>current_round := 1\<rparr>;
         ((offer, msg), st) = generate_opening_offer_S rnd None ctx
     in seller_rounds L rnd (Some st) (ctx\<lparr>your_offers := your_offers ctx @ [offer]\<rparr>) replies)"

definition session_start :: "unit NegotiationContext" where
  "session_start = \<lparr>product = mango, your_budget = 216000, current_round = 0,
     seller_offers = [], your_offers = [], messages = []\<rparr>"

definition quiet :: "seller_state option \<Rightarrow> bool" where
  "quiet agent = (max_buyer_seen (init_state_S agent) = None)"

section \<open>Evaluation and auxiliary facts\<close>

lemmas float_eval = fl_def expo_def rne_def nbits.simps Let_def pow2_def py_int_def
  float_of_int_def fmul_def fadd_def fsub_def fdiv_def imul_def int_mul_def

lemma reciprocity_index_range: "0 \<le> reciprocity_index n \<and> reciprocity_index n < 5"
proof -
  have "length demands = 5" by (simp add: demands_def)
  then show ?thesis unfolding reciprocity_index_def by auto
qed

lemma py_index_in_range: "0 \<le> i \<Longrightarrow> i < int (length xs) \<Longrightarrow> py_index xs i = Inr (xs ! nat i)"
  unfolding py_index_def by simp

lemma format_reciprocity_request_Inr:
  "format_reciprocity_request n = Inr (demands ! nat (reciprocity_index n))"
proof -
  have "length demands = 5" by (simp add: demands_def)
  then show ?thesis
    unfolding format_reciprocity_request_def
    using reciprocity_index_range [of n] by (intro py_index_in_range) auto
qed

lemma reciprocity_index_S_range: "0 \<le> reciprocity_index_S n \<and> reciprocity_index_S n < 5"
proof -
  have "length demands_S = 5" by (simp add: demands_S_def)
  then show ?thesis unfolding reciprocity_index_S_def by auto
qed

lemma format_reciprocity_request_S_Inr:
  "format_reciprocity_request_S n = Inr (demands_S ! nat (reciprocity_index_S n))"
proof -
  have "length demands_S = 5" by (simp add: demands_S_def)
  then show ?thesis
    unfolding format_reciprocity_request_S_def
    using reciprocity_index_S_range [of n] by (intro py_index_in_range) auto
qed

lemma ev_budget_500: "int_mul 500 AGG_OPEN_BUDGET_RATIO = 390"
  by (simp add: AGG_OPEN_BUDGET_RATIO_def float_eval)

lemma ev_market_open: "int_mul 180000 MARKET_OPEN_RATIO = 129600"
  by (simp add: MARKET_OPEN_RATIO_def float_eval)

lemma opening_small_budget: "opening_offer_number small_budget_ctx = 1000"
  by (simp add: opening_offer_number_def small_budget_ctx_def mango_def MIN_STEP_def
      ev_budget_500 ev_market_open)

lemma outcome_Inr [simp]: "outcome (Inr ((s, p, m), st)) = Inr (s, p, st)"
  by (simp add: outcome_def)

lemma outcome_Inl [simp]: "outcome (Inl e) = Inl e"
  by (simp add: outcome_def)

lemma finalize_outcome:
  "outcome (finalize rnd1 st ctx ct p) = outcome (finalize rnd2 st ctx ct p)"
  by (simp add: finalize_def Let_def format_reciprocity_request_Inr split: option.split)

lemma bargain_outcome:
  "outcome (bargain rnd1 tone st ctx ct last_my r p) = outcome (bargain rnd2 tone st ctx ct last_my r p)"
  by (simp add: bargain_def Let_def split: sum.split)


lemma respond_outcome:
  "outcome (respond_to_seller_offer L rnd1 agent ctx p msg)
     = outcome (respond_to_seller_offer L rnd2 agent ctx p msg)"
proof (cases p)
  case None
  obtain tone st where pa:
    "personality_adaptation L msg (observe L None msg (init_state agent)) = (tone, st)"
    by (cases "personality_adaptation L msg (observe L None msg (init_state agent))") auto
  show ?thesis
    using finalize_outcome [of rnd1 st ctx _ None rnd2]
    by (simp add: respond_to_seller_offer_def Let_def pa None)
next
  case (Some x)
  obtain tone st where pa:
    "personality_adaptation L msg (observe L (Some x) msg (init_state agent)) = (tone, st)"
    by (cases "personality_adaptation L msg (observe L (Some x) msg (init_state agent))") auto
  show ?thesis
    using finalize_outcome [of rnd1 st ctx _ "Some x" rnd2]
      bargain_outcome [of rnd1 tone st ctx _ _ _ x rnd2]
    by (simp add: respond_to_seller_offer_def Let_def pa Some)
qed

lemma respond_S_outcome:
  "outcome (respond_to_seller_offer_S L rnd1 agent ctx p msg)
     = outcome (respond_to_seller_offer_S L rnd2 agent ctx p msg)"
proof -
  obtain tone st where pa:
    "personality_adaptation_S L msg (observe_S p (init_state_S agent)) = (tone, st)"
    by (cases "personality_adaptation_S L msg (observe_S p (init_state_S agent))") auto
  show ?thesis
    by (simp add: respond_to_seller_offer_S_def Let_def pa format_reciprocity_request_S_Inr
        split: sum.split)
qed



lemma ev_interview_easy: "int_mul 216000 (fsub 1 SAVINGS_THRESHOLD) = 194400"
  by (simp add: SAVINGS_THRESHOLD_def float_eval)

lemma ev_walkaway_market: "int_mul 180000 WALKAWAY_MARKET_RATIO = 172800"
  by (simp add: WALKAWAY_MARKET_RATIO_def float_eval)

lemma ev_floor_market: "int_mul 180000 WALKAWAY_RATIO = 162000"
  by (simp add: WALKAWAY_RATIO_def float_eval)


lemma walkaway_cap_easy: "walkaway_cap easy_ctx = 172800"
  by (simp add: walkaway_cap_def easy_ctx_def mango_def ev_walkaway_market)

















lemma status_price_Inr [simp]: "status_price (Inr ((s, p, m), st)) = Some (s, p)"
  by (simp add: status_price_def)

lemma counter_message_S_Inr: "\<exists>c. counter_message_S tone proposed st = Inr c"
  by (simp add: counter_message_S_def Let_def format_reciprocity_request_S_Inr)

lemma ev_agg_open: "int_mul 180000 AGG_OPEN_RATIO = 225000"
  by (simp add: AGG_OPEN_RATIO_def float_eval)

lemma ev_market_open_S: "int_mul 180000 MARKET_OPEN_RATIO_S = 206999"
  by (simp add: MARKET_OPEN_RATIO_S_def float_eval)



lemma ev_step_base: "py_int (max (of_int MIN_STEP_S) (imul 180000 (fl (1 / 20)))) = 9000"
  by (simp add: MIN_STEP_S_def float_eval)

lemma opening_S_mango:
  "base_market_price (product ctx) = 180000 \<Longrightarrow> opening_offer_number_S ctx = 225000"
  by (simp add: opening_offer_number_S_def ev_agg_open ev_market_open_S)

lemma floor_mango:
  "base_market_price (product ctx) = 180000 \<Longrightarrow> walkaway_floor ctx = 162000"
  by (simp add: walkaway_floor_def ev_floor_market)





lemma counter_message_S_not_Inl [simp]: "counter_message_S tone proposed st \<noteq> Inl e"
  using counter_message_S_Inr [of tone proposed st] by auto

lemma seller_counter:
  assumes "current_round ctx < 9"
    and "\<not> price_reaches q (dynamic_target_S ctx)"
  shows "status_price (respond_to_seller_offer_S L rnd agent ctx q msg)
           = Some (ONGOING,
                   max ((if your_offers ctx \<noteq> [] then last (your_offers ctx)
                         else opening_offer_number_S ctx)
                        - step_S (base_market_price (product ctx)) (clamp_round (current_round ctx)))
                       (walkaway_floor ctx))"
proof -
  obtain tone st where pa:
    "personality_adaptation_S L msg (observe_S q (init_state_S agent)) = (tone, st)"
    by (cases "personality_adaptation_S L msg (observe_S q (init_state_S agent))") auto
  have r: "\<not> 9 \<le> current_round ctx"
    using assms(1) by simp
  show ?thesis
    by (simp add: respond_to_seller_offer_S_def Let_def pa r assms(2) counter_message_S_Inr
        split: sum.split) linarith
qed










lemma adaptation_keeps_min:
  "min_seller_seen (snd (personality_adaptation L msg st)) = min_seller_seen st"
  by (simp add: personality_adaptation_def Let_def)

lemma observe_min:
  "p \<noteq> 0 \<Longrightarrow> min_seller_seen (observe L (Some p) msg st)
     = Some (case min_seller_seen st of None \<Rightarrow> p | Some m \<Rightarrow> min m p)"
  by (simp add: observe_def update_seller_estimates_def record_concession_def Let_def
      split: option.split)

lemma closing_target_cong:
  "min_seller_seen st = min_seller_seen st'
     \<Longrightarrow> closing_target_from_estimate st = closing_target_from_estimate st'"
  by (simp add: closing_target_from_estimate_def)

lemma accepted_state:
  assumes "p \<le> min (int_mul (your_budget ctx) (fsub 1 SAVINGS_THRESHOLD)) (walkaway_cap ctx)"
  shows "agent_after (respond_to_seller_offer L rnd agent ctx (Some p) msg)
           = Some (snd (personality_adaptation L msg (observe L (Some p) msg (init_state agent))))"
proof -
  obtain tone st where pa:
    "personality_adaptation L msg (observe L (Some p) msg (init_state agent)) = (tone, st)"
    by (cases "personality_adaptation L msg (observe L (Some p) msg (init_state agent))") auto
  show ?thesis
    using assms by (simp add: respond_to_seller_offer_def Let_def pa agent_after_def)
qed

lemma last_shot:
  assumes "9 \<le> current_round ctx" and "your_budget ctx < p"
  shows "status_price (respond_to_seller_offer L rnd agent ctx (Some p) msg)
     = Some (ONGOING,
         (case closing_target_from_estimate (observe L (Some p) msg (init_state agent)) of
            None \<Rightarrow> min (your_budget ctx) (walkaway_cap ctx)
          | Some c \<Rightarrow>
              if min c (min (walkaway_cap ctx) (your_budget ctx)) = 0
              then min (your_budget ctx) (walkaway_cap ctx)
              else min (min (your_budget ctx) (walkaway_cap ctx))
                     (max (int_mul (your_budget ctx) (fsub 1 SAVINGS_THRESHOLD))
                          (min c (min (walkaway_cap ctx) (your_budget ctx))))))"
proof -
  obtain tone st where pa:
    "personality_adaptation L msg (observe L (Some p) msg (init_state agent)) = (tone, st)"
    by (cases "personality_adaptation L msg (observe L (Some p) msg (init_state agent))") auto
  have w: "walkaway_cap ctx \<le> your_budget ctx"
    by (simp add: walkaway_cap_def)
  have ct: "closing_target_from_estimate st
              = closing_target_from_estimate (observe L (Some p) msg (init_state agent))"
    using adaptation_keeps_min [of L msg "observe L (Some p) msg (init_state agent)"]
    by (intro closing_target_cong) (simp add: pa)
  show ?thesis
    using assms w
    by (simp add: respond_to_seller_offer_def Let_def pa finalize_def ct
        format_reciprocity_request_Inr split: option.split)
qed


lemma ev_interview_hard: "int_mul 162000 (fsub 1 SAVINGS_THRESHOLD) = 145800"
  by (simp add: SAVINGS_THRESHOLD_def float_eval)

lemma ev_floor_270: "int_mul 270000 (fl (49 / 50)) = 264600"
  by (simp add: float_eval)

lemma ev_margin_270: "int_mul 264600 MIN_SELLER_MARGIN = 291060"
  by (simp add: MIN_SELLER_MARGIN_def float_eval)

lemma ev_floor_149: "int_mul 149040 (fl (49 / 50)) = 146059"
  by (simp add: float_eval)

lemma ev_margin_149: "int_mul 146059 MIN_SELLER_MARGIN = 160664"
  by (simp add: MIN_SELLER_MARGIN_def float_eval)

lemma hard_fields:
  "your_budget hard_late_ctx = 162000" "current_round hard_late_ctx = 9"
  "walkaway_cap hard_late_ctx = 162000"
  by (simp_all add: hard_late_ctx_def walkaway_cap_def mango_def ev_walkaway_market)

lemma target_fresh:
  "closing_target_from_estimate (observe L (Some 270000) msg (init_state None)) = Some 291060"
  by (simp add: closing_target_from_estimate_def observe_min init_state_def
      fresh_buyer_state_def ev_floor_270 ev_margin_270 MIN_STEP_def)

lemma target_after:
  "min_seller_seen st = Some 149040 \<Longrightarrow>
   closing_target_from_estimate (observe L (Some 270000) msg (init_state (Some st))) = Some 160664"
  by (simp add: closing_target_from_estimate_def observe_min init_state_def
      ev_floor_149 ev_margin_149 MIN_STEP_def)

lemma easy_session_state:
  "\<exists>st. agent_after (respond_to_seller_offer ascii_lib (0, 0) None easy_ctx (Some 149040) [])
           = Some st \<and> min_seller_seen st = Some 149040"
proof -
  have b: "your_budget easy_ctx = 216000"
    by (simp add: easy_ctx_def)
  have h: "149040 \<le> min (int_mul (your_budget easy_ctx) (fsub 1 SAVINGS_THRESHOLD))
                       (walkaway_cap easy_ctx)"
    by (simp add: b ev_interview_easy walkaway_cap_easy)
  have m: "min_seller_seen (snd (personality_adaptation ascii_lib []
              (observe ascii_lib (Some 149040) [] (init_state None)))) = Some 149040"
    by (simp add: adaptation_keeps_min observe_min init_state_def fresh_buyer_state_def)
  show ?thesis
    using accepted_state [OF h, of ascii_lib "(0, 0)" None "[]"] m by simp
qed

lemma pow2_pos: "0 < pow2 e"
  by (simp add: pow2_def)

lemma rne_nonneg: "0 \<le> y \<Longrightarrow> 0 \<le> rne y"
  by (simp add: rne_def Let_def)

lemma fl_nonneg: "0 \<le> x \<Longrightarrow> 0 \<le> fl x"
proof -
  assume x: "0 \<le> x"
  have "0 \<le> x / pow2 (expo \<bar>x\<bar> - 52)"
    using x pow2_pos [of "expo \<bar>x\<bar> - 52"] by simp
  then have "0 \<le> rne (x / pow2 (expo \<bar>x\<bar> - 52))"
    by (rule rne_nonneg)
  then show "0 \<le> fl x"
    using pow2_pos [of "expo \<bar>x\<bar> - 52"] by (simp add: fl_def Let_def)
qed

lemma py_int_nonneg: "0 \<le> x \<Longrightarrow> 0 \<le> py_int x"
  by (simp add: py_int_def)

lemma int_mul_nonneg: "0 \<le> n \<Longrightarrow> 0 \<le> c \<Longrightarrow> 0 \<le> int_mul n c"
  by (simp add: int_mul_def imul_def fmul_def float_of_int_def py_int_nonneg fl_nonneg)

lemma step_S_nonneg: "0 \<le> step_S market r"
proof -
  have "0 \<le> py_int (max (of_int MIN_STEP_S) (imul market (fl (5 / 100))))"
    by (rule py_int_nonneg) (simp add: MIN_STEP_S_def max_def)
  then show ?thesis
    by (simp add: step_S_def Let_def int_mul_nonneg FAST_CONCESSION_MULT_S_def)
qed

lemma seller_offers_do_not_rise:
  assumes "status_price (respond_to_seller_offer_S L rnd agent ctx q msg) = Some (ONGOING, x)"
    and "current_round ctx < 9"
    and "walkaway_floor ctx \<le> (if your_offers ctx \<noteq> [] then last (your_offers ctx)
                                  else opening_offer_number_S ctx)"
  shows "x \<le> (if your_offers ctx \<noteq> [] then last (your_offers ctx)
               else opening_offer_number_S ctx) \<and> walkaway_floor ctx \<le> x"
proof -
  obtain tone st where pa:
    "personality_adaptation_S L msg (observe_S q (init_state_S agent)) = (tone, st)"
    by (cases "personality_adaptation_S L msg (observe_S q (init_state_S agent))") auto
  have r: "\<not> 9 \<le> current_round ctx"
    using assms(2) by simp
  have s: "0 \<le> step_S (base_market_price (product ctx)) (clamp_round (current_round ctx))"
    by (rule step_S_nonneg)
  show ?thesis
  proof (cases "price_reaches q (dynamic_target_S ctx)")
    case True
    then show ?thesis
      using assms(1) by (simp add: respond_to_seller_offer_S_def Let_def pa r)
  next
    case False
    have "status_price (respond_to_seller_offer_S L rnd agent ctx q msg)
           = Some (ONGOING,
                   max ((if your_offers ctx \<noteq> [] then last (your_offers ctx)
                         else opening_offer_number_S ctx)
                        - step_S (base_market_price (product ctx)) (clamp_round (current_round ctx)))
                       (walkaway_floor ctx))"
      using assms(2) False by (rule seller_counter)
    then show ?thesis
      using assms(1,3) s by auto
  qed
qed


lemma counter_message_Inr: "\<exists>c. counter_message tone proposed st = Inr c"
  by (simp add: counter_message_def reciprocity_text_def Let_def format_reciprocity_request_Inr)

lemma counter_message_not_Inl [simp]: "counter_message tone proposed st \<noteq> Inl e"
  using counter_message_Inr [of tone proposed st] by auto

lemma bargain_price:
  "\<exists>y. status_price (bargain rnd tone st ctx ct last_my r p) = Some (ONGOING, y)
        \<and> (last_my \<le> min (your_budget ctx) (walkaway_cap ctx) \<longrightarrow> last_my \<le> y)
        \<and> y \<le> your_budget ctx"
proof -
  define clamp where
    "clamp = (\<lambda>P. min (max P (max (opening_offer_number ctx) last_my))
                       (min (your_budget ctx) (walkaway_cap ctx)))"
  define core where
    "core = (\<lambda>P. case counter_message tone (clamp P)
                       (if last_my < clamp P
                        then record_concession Buyer (clamp P - last_my) st else st) of
                  Inl e \<Rightarrow> Inl e
                | Inr content \<Rightarrow>
                    Inr ((ONGOING, clamp P, format_professional rnd content),
                         (if last_my < clamp P
                          then record_concession Buyer (clamp P - last_my) st else st)))"
  have "\<exists>P. bargain rnd tone st ctx ct last_my r p = core P"
    unfolding core_def clamp_def bargain_def Let_def
    by (rule exI) (rule refl)
  then obtain P where b: "bargain rnd tone st ctx ct last_my r p = core P"
    by blast
  have sp: "status_price (core P) = Some (ONGOING, clamp P)"
    by (simp add: core_def split: sum.split)
  have lo: "last_my \<le> min (your_budget ctx) (walkaway_cap ctx) \<longrightarrow> last_my \<le> clamp P"
    unfolding clamp_def by auto
  have hi: "clamp P \<le> your_budget ctx"
    unfolding clamp_def by auto
  show ?thesis
    using b sp lo hi by auto
qed


lemma buyer_offers_do_not_fall:
  assumes "status_price (respond_to_seller_offer L rnd agent ctx (Some p) msg) = Some (ONGOING, x)"
    and "current_round ctx < 9"
    and "(if your_offers ctx \<noteq> [] then last (your_offers ctx) else opening_offer_number ctx)
           \<le> min (your_budget ctx) (walkaway_cap ctx)"
  shows "(if your_offers ctx \<noteq> [] then last (your_offers ctx) else opening_offer_number ctx) \<le> x
         \<and> x \<le> your_budget ctx"
proof -
  obtain tone st where pa:
    "personality_adaptation L msg (observe L (Some p) msg (init_state agent)) = (tone, st)"
    by (cases "personality_adaptation L msg (observe L (Some p) msg (init_state agent))") auto
  define last_my where
    "last_my = (if your_offers ctx \<noteq> [] then last (your_offers ctx) else opening_offer_number ctx)"
  define ct where
    "ct = map_option (\<lambda>c. min c (min (walkaway_cap ctx) (your_budget ctx)))
            (closing_target_from_estimate st)"
  obtain y where y: "status_price (bargain rnd tone st ctx ct last_my
                        (clamp_round (current_round ctx)) p) = Some (ONGOING, y)"
    and lo: "last_my \<le> min (your_budget ctx) (walkaway_cap ctx) \<longrightarrow> last_my \<le> y"
    and hi: "y \<le> your_budget ctx"
    using bargain_price [of rnd tone st ctx ct last_my "clamp_round (current_round ctx)" p]
    by blast
  have r: "\<not> 9 \<le> current_round ctx"
    using assms(2) by simp
  have "x = y"
    using assms(1) y
    by (simp add: respond_to_seller_offer_def Let_def pa r last_my_def [symmetric]
        ct_def [symmetric] split: if_splits)
  then show ?thesis
    using lo hi assms(3) by (simp add: last_my_def)
qed

lemma adaptation_S_keeps_max:
  "max_buyer_seen (snd (personality_adaptation_S L msg st)) = max_buyer_seen st"
  by (simp add: personality_adaptation_S_def Let_def)

lemma quiet_after:
  assumes "quiet agent"
  shows "quiet (agent_after (respond_to_seller_offer_S L rnd agent ctx None msg))"
proof -
  have o: "observe_S None (init_state_S agent) = init_state_S agent"
    by (simp add: observe_S_def)
  obtain tone st where pa:
    "personality_adaptation_S L msg (init_state_S agent) = (tone, st)"
    by (cases "personality_adaptation_S L msg (init_state_S agent)") auto
  have m: "max_buyer_seen st = None"
    using adaptation_S_keeps_max [of L msg "init_state_S agent"] assms
    by (simp add: pa quiet_def)
  have i: "\<And>x. init_state_S (Some x) = x"
    by (simp add: init_state_S_def)
  show ?thesis
    using m
    by (simp add: respond_to_seller_offer_S_def Let_def o pa price_reaches_def quiet_def
        agent_after_def i record_concession_S_def
        format_reciprocity_request_S_Inr split: sum.split)
qed


lemma quiet_last_shot:
  assumes "quiet agent" and "9 \<le> current_round ctx"
  shows "status_price (respond_to_seller_offer_S L rnd agent ctx None msg)
           = Some (ONGOING, max (walkaway_floor ctx) (base_market_price (product ctx)))"
proof -
  have o: "observe_S None (init_state_S agent) = init_state_S agent"
    by (simp add: observe_S_def)
  obtain tone st where pa:
    "personality_adaptation_S L msg (init_state_S agent) = (tone, st)"
    by (cases "personality_adaptation_S L msg (init_state_S agent)") auto
  have m: "max_buyer_seen st = None"
    using adaptation_S_keeps_max [of L msg "init_state_S agent"] assms(1)
    by (simp add: pa quiet_def)
  have c: "closing_target_from_estimate_S st = None"
    by (simp add: closing_target_from_estimate_S_def m)
  show ?thesis
    using assms(2)
    by (simp add: respond_to_seller_offer_S_def Let_def o pa c price_reaches_def
        format_reciprocity_request_S_Inr)
qed

lemma rounds_step:
  assumes "current_round ctx + 1 < 9"
  shows "seller_rounds L rnd agent ctx ((None, msg) # rest)
    = seller_rounds L rnd
        (agent_after (respond_to_seller_offer_S L rnd agent
                        (ctx\<lparr>current_round := current_round ctx + 1\<rparr>) None msg))
        (ctx\<lparr>current_round := current_round ctx + 1,
             your_offers := your_offers ctx
               @ [max ((if your_offers ctx \<noteq> [] then last (your_offers ctx)
                        else opening_offer_number_S ctx)
                       - step_S (base_market_price (product ctx))
                           (clamp_round (current_round ctx + 1)))
                      (walkaway_floor ctx)]\<rparr>) rest"
proof -
  have n: "\<not> price_reaches None
             (dynamic_target_S (ctx\<lparr>current_round := current_round ctx + 1\<rparr>))"
    by (simp add: price_reaches_def)
  have r: "current_round (ctx\<lparr>current_round := current_round ctx + 1\<rparr>) < 9"
    using assms by simp
  show ?thesis
    using seller_counter [OF r n, of L rnd agent msg]
    by (simp add: seller_rounds.simps Let_def opening_offer_number_S_def walkaway_floor_def)
qed

lemma rounds_last:
  assumes "quiet agent" and "9 \<le> current_round ctx + 1"
  shows "seller_rounds L rnd agent ctx [(None, msg)]
    = ctx\<lparr>current_round := current_round ctx + 1,
          your_offers := your_offers ctx
            @ [max (walkaway_floor ctx) (base_market_price (product ctx))]\<rparr>"
proof -
  have r: "9 \<le> current_round (ctx\<lparr>current_round := current_round ctx + 1\<rparr>)"
    using assms(2) by simp
  show ?thesis
    using quiet_last_shot [OF assms(1) r, of L rnd msg]
    by (simp add: seller_rounds.simps Let_def walkaway_floor_def)
qed


lemma ev_accel_S: "int_mul 9000 FAST_CONCESSION_MULT_S = 13500"
  by (simp add: FAST_CONCESSION_MULT_S_def float_eval)

lemma step_S_mango: "step_S 180000 r = (if 5 < r then 13500 else 9000)"
  by (simp add: step_S_def Let_def ev_step_base ev_accel_S FAST_CONCESSION_AFTER_S_def)

lemma quiet_opened: "quiet (Some (record_concession_S Seller 0 (init_state_S None)))"
  by (simp add: quiet_def init_state_S_def fresh_seller_state_def record_concession_S_def)

section \<open>The claims\<close>

text \<open>
  C1 (buyer prices never exceed the budget, seller prices never fall below the floor).
  The buyer's opening offer is floored at \<open>MIN_STEP\<close> after it is capped at the budget:
  with a budget of 500 the opening offer is 1000.
\<close>

theorem opening_offer_exceeds_small_budget:
  "fst (fst (generate_opening_offer (0, 0) None small_budget_ctx)) = 1000
   \<and> your_budget small_budget_ctx = 500"
  by (simp add: generate_opening_offer_def opening_small_budget, simp add: small_budget_ctx_def)

text \<open>
  C8 (the reciprocity demand index). For a concession count \<open>n\<close> the index is
  \<open>min(len(demands) - 1, n - 1)\<close> when \<open>n > 0\<close> and 0 otherwise; it does not decrease when
  \<open>n\<close> grows, and it is always a position of the five-element catalogue, so the lookup
  never raises. The branch guarded by "the buyer conceded more often than the seller"
  never reaches the \<open>n = 0\<close> fallback: with no buyer concession the branch is not entered
  (the reciprocity text is empty), and whenever it is entered (the text is not empty) the
  count is positive and the demand is the one at \<open>min(4, n - 1)\<close>.
\<close>

theorem reciprocity_demand_index:
  "reciprocity_index n = (if 0 < n then min (int (length demands) - 1) (n - 1) else 0)
   \<and> length demands = 5
   \<and> (n \<le> m \<longrightarrow> reciprocity_index n \<le> reciprocity_index m)
   \<and> 0 \<le> reciprocity_index n \<and> reciprocity_index n < int (length demands)
   \<and> format_reciprocity_request n = Inr (demands ! nat (reciprocity_index n))
   \<and> (concessions_buyer st = [] \<longrightarrow> reciprocity_text st = Inr [])
   \<and> (reciprocity_text st \<noteq> Inr [] \<longrightarrow>
        int (length (concessions_seller st)) < int (length (concessions_buyer st))
        \<and> 0 < int (length (concessions_buyer st))
        \<and> reciprocity_index (int (length (concessions_buyer st)))
            = min 4 (int (length (concessions_buyer st)) - 1)
        \<and> reciprocity_text st
            = Inr (U '' In return for this move I need: ''
                   @ demands ! nat (min 4 (int (length (concessions_buyer st)) - 1))
                   @ U ''.''))"
proof -
  have len: "length demands = 5" by (simp add: demands_def)
  have mono: "n \<le> m \<longrightarrow> reciprocity_index n \<le> reciprocity_index m"
    unfolding reciprocity_index_def len by auto
  have none: "concessions_buyer st = [] \<longrightarrow> reciprocity_text st = Inr []"
    by (simp add: reciprocity_text_def)
  have entered: "reciprocity_text st \<noteq> Inr [] \<longrightarrow>
        int (length (concessions_seller st)) < int (length (concessions_buyer st))
        \<and> 0 < int (length (concessions_buyer st))
        \<and> reciprocity_index (int (length (concessions_buyer st)))
            = min 4 (int (length (concessions_buyer st)) - 1)
        \<and> reciprocity_text st
            = Inr (U '' In return for this move I need: ''
                   @ demands ! nat (min 4 (int (length (concessions_buyer st)) - 1))
                   @ U ''.'')"
  proof
    assume ne: "reciprocity_text st \<noteq> Inr []"
    have guard: "int (length (concessions_seller st)) < int (length (concessions_buyer st))"
    proof (rule ccontr)
      assume "\<not> int (length (concessions_seller st)) < int (length (concessions_buyer st))"
      then have "reciprocity_text st = Inr []" by (simp add: reciprocity_text_def)
      with ne show False by simp
    qed
    then have pos: "0 < int (length (concessions_buyer st))" by linarith
    have idx: "reciprocity_index (int (length (concessions_buyer st)))
                 = min 4 (int (length (concessions_buyer st)) - 1)"
      using pos unfolding reciprocity_index_def len by simp
    have shape: "reciprocity_text st
            = Inr (U '' In return for this move I need: ''
                   @ demands ! nat (min 4 (int (length (concessions_buyer st)) - 1))
                   @ U ''.'')"
      using guard by (simp add: reciprocity_text_def format_reciprocity_request_Inr idx)
    show "int (length (concessions_seller st)) < int (length (concessions_buyer st))
        \<and> 0 < int (length (concessions_buyer st))
        \<and> reciprocity_index (int (length (concessions_buyer st)))
            = min 4 (int (length (concessions_buyer st)) - 1)
        \<and> reciprocity_text st
            = Inr (U '' In return for this move I need: ''
                   @ demands ! nat (min 4 (int (length (concessions_buyer st)) - 1))
                   @ U ''.'')"
      using guard pos idx shape by simp
  qed
  show ?thesis
    using len mono none entered reciprocity_index_range [of n]
      format_reciprocity_request_Inr [of n]
    by (simp add: reciprocity_index_def)
qed

text \<open>
  The theorem at the counts 3, 7, 0 and 9, at the fresh state (no buyer concession, no
  demand) and at a state with two buyer concessions, whose demand is the second entry of
  the catalogue and not the fallback's first.
\<close>

theorem reciprocity_demand_index_witness:
  "reciprocity_index 3 = 2 \<and> reciprocity_index 3 \<le> reciprocity_index 7
   \<and> reciprocity_index 0 = 0 \<and> reciprocity_index 9 = 4
   \<and> reciprocity_text fresh_buyer_state = Inr []
   \<and> 0 < int (length (concessions_buyer conceded_twice))
   \<and> reciprocity_index (int (length (concessions_buyer conceded_twice))) = 1
   \<and> reciprocity_text conceded_twice
       = Inr (U '' In return for this move I need: '' @ U ''extended warranty (6 months)''
              @ U ''.'')"
proof -
  have b: "(3::int) \<le> 7" by simp
  have e: "concessions_buyer fresh_buyer_state = []"
    by (simp add: fresh_buyer_state_def)
  have l: "int (length (concessions_buyer conceded_twice)) = 2"
    by (simp add: conceded_twice_def fresh_buyer_state_def)
  have t: "reciprocity_text conceded_twice
             = Inr (U '' In return for this move I need: '' @ demands ! 1 @ U ''.'')"
    by (simp add: reciprocity_text_def conceded_twice_def fresh_buyer_state_def
        format_reciprocity_request_Inr reciprocity_index_def demands_def)
  have ne: "reciprocity_text conceded_twice \<noteq> Inr []"
    unfolding t by (simp add: U_def)
  have d: "demands ! 1 = U ''extended warranty (6 months)''"
    by (simp add: demands_def)
  show ?thesis
    using reciprocity_demand_index [of 3 7 fresh_buyer_state]
      reciprocity_demand_index [of 0 0 conceded_twice]
      reciprocity_demand_index [of 9 9 conceded_twice] b e l ne d
    by (simp add: demands_def)
qed

text \<open>
  C10 (a buyer price of 0 is an absent price for the seller). The seller's whole response,
  new state included, to the price 0 is its response to no price: 0 is not recorded by
  the estimator, is never accepted, and the gap is 0. On the buyer's side the closing
  target is absent when the running minimum is 0.
\<close>

theorem zero_price_is_absent:
  "respond_to_seller_offer_S L rnd agent ctx (Some 0) msg
     = respond_to_seller_offer_S L rnd agent ctx None msg
   \<and> observe_S (Some 0) st = st
   \<and> gap_S last_my (Some 0) = 0
   \<and> \<not> price_reaches (Some 0) bound
   \<and> closing_target_from_estimate (bst\<lparr>min_seller_seen := Some 0\<rparr>) = None"
proof -
  have h1: "\<And>s. observe_S (Some 0) s = observe_S None s"
    by (simp add: observe_S_def)
  have h2: "\<And>b. price_reaches (Some 0) b = price_reaches None b"
    by (simp add: price_reaches_def)
  have h3: "\<And>l. gap_S l (Some 0) = gap_S l None"
    by (simp add: gap_S_def)
  have h4: "price_of (Some 0) = price_of None"
    by (simp add: price_of_def)
  have "respond_to_seller_offer_S L rnd agent ctx (Some 0) msg
     = respond_to_seller_offer_S L rnd agent ctx None msg"
    by (simp only: respond_to_seller_offer_S_def h1 h2 h3 h4)
  moreover have "observe_S (Some 0) st = st"
    by (simp add: observe_S_def)
  moreover have "gap_S last_my (Some 0) = 0"
    by (simp add: gap_S_def)
  moreover have "\<not> price_reaches (Some 0) bound"
    by (simp add: price_reaches_def)
  moreover have "closing_target_from_estimate (bst\<lparr>min_seller_seen := Some 0\<rparr>) = None"
    by (simp add: closing_target_from_estimate_def)
  ultimately show ?thesis by blast
qed

text \<open>
  C9 (the random phrase decoration touches the message only). Two runs of a per-round
  call, or of an opening offer, on the same inputs and state that differ only in the
  draws of \<open>random.choice\<close> return the same status, the same price and the same new
  state, or raise the same error.
\<close>

theorem phrase_choice_affects_message_only:
  "outcome (respond_to_seller_offer L rnd1 agent ctx p msg)
     = outcome (respond_to_seller_offer L rnd2 agent ctx p msg)
   \<and> outcome (respond_to_seller_offer_S L rnd1 agent_S ctx p msg)
     = outcome (respond_to_seller_offer_S L rnd2 agent_S ctx p msg)
   \<and> fst (fst (generate_opening_offer rnd1 agent ctx))
     = fst (fst (generate_opening_offer rnd2 agent ctx))
   \<and> snd (generate_opening_offer rnd1 agent ctx) = snd (generate_opening_offer rnd2 agent ctx)
   \<and> fst (fst (generate_opening_offer_S rnd1 agent_S ctx))
     = fst (fst (generate_opening_offer_S rnd2 agent_S ctx))
   \<and> snd (generate_opening_offer_S rnd1 agent_S ctx)
     = snd (generate_opening_offer_S rnd2 agent_S ctx)"
  using respond_outcome [of L rnd1 agent ctx p msg rnd2]
    respond_S_outcome [of L rnd1 agent_S ctx p msg rnd2]
  by (simp add: generate_opening_offer_def generate_opening_offer_S_def Let_def)









text \<open>
  C6 (the agent state is created fresh for each session). \<open>_init_state\<close> creates the
  state only when the instance has none, so a session starts from the state the previous
  session left. The same call, in round 9 of a session with budget 162000 and a seller
  price of 270000, returns the final offer 162000 on a new instance and 160664 on an
  instance that accepted 149040 in an earlier session.
\<close>

theorem earlier_session_changes_decision:
  "status_price (respond_to_seller_offer ascii_lib (0, 0) None hard_late_ctx (Some 270000) [])
     = Some (ONGOING, 162000)
   \<and> status_price (respond_to_seller_offer ascii_lib (0, 0)
        (agent_after (respond_to_seller_offer ascii_lib (0, 0) None easy_ctx (Some 149040) []))
        hard_late_ctx (Some 270000) [])
     = Some (ONGOING, 160664)"
proof -
  obtain st where st: "agent_after (respond_to_seller_offer ascii_lib (0, 0) None easy_ctx
                          (Some 149040) []) = Some st"
    and m: "min_seller_seen st = Some 149040"
    using easy_session_state by blast
  have r: "9 \<le> current_round hard_late_ctx" "your_budget hard_late_ctx < 270000"
    by (simp_all add: hard_fields)
  show ?thesis
    using last_shot [OF r, of ascii_lib "(0, 0)" None "[]"]
      last_shot [OF r, of ascii_lib "(0, 0)" "Some st" "[]"]
    by (simp add: st target_fresh target_after [OF m] hard_fields ev_interview_hard)
qed

text \<open>
  C3 (the buyer's offers never fall and the seller's never rise across a session). As
  stated the claim fails: in a session on a market price of 180000 in which the buyer
  names no price, the seller goes down from its opening 225000 to its floor 162000 by
  round 7, repeats it in round 8, and makes a final offer of 180000 in round 9.
\<close>

theorem seller_last_shot_rises:
  "your_offers (seller_session ascii_lib (0, 0) session_start
     [(None, []), (None, []), (None, []), (None, []), (None, []), (None, []), (None, []),
      (None, [])])
   = [225000, 216000, 207000, 198000, 189000, 175500, 162000, 162000, 180000]"
  by (simp add: seller_session_def generate_opening_offer_S_def Let_def session_start_def
      mango_def rounds_step rounds_last quiet_after quiet_opened opening_S_mango floor_mango
      step_S_mango clamp_round_def)

end
